theory Spec2Isabelle
  imports Complex_Main "HOL-Library.Word"
begin

section \<open>Images and bounding boxes\<close>

text \<open>
  A grayscale image is a two-dimensional array of bytes. Its \<open>shape\<close> is
  \<open>(rows, cols)\<close>; either may be zero (an empty slice), which a list of rows could
  not express, so the pixels are a function of row and column.
\<close>

record gray_image =
  rows :: nat
  cols :: nat
  pix :: "nat \<Rightarrow> nat \<Rightarrow> 8 word"

text \<open>A bounding box is the tuple \<open>(x, y, w, h)\<close> of \<open>cv2.boundingRect\<close>.\<close>

type_synonym rect = "int \<times> int \<times> int \<times> int"

fun rect_x :: "rect \<Rightarrow> int" where
  "rect_x (x, y, w, h) = x"

fun rect_y :: "rect \<Rightarrow> int" where
  "rect_y (x, y, w, h) = y"

fun rect_w :: "rect \<Rightarrow> int" where
  "rect_w (x, y, w, h) = w"

fun rect_h :: "rect \<Rightarrow> int" where
  "rect_h (x, y, w, h) = h"

section \<open>SmartCaptchaSolver.find_character_regions\<close>

text \<open>
  \<open>aspect_ratio = w / float(h)\<close>. The quotient is only ever compared with the
  constants 0.7 and 1.4, and only for \<open>18 \<le> h < 22\<close>; a quotient of two pixel counts
  that is not exactly 7/10 or 7/5 is further from them than any rounding of a double
  division, so the comparison is the one of the exact quotients.
\<close>

definition aspect_ratio :: "int \<Rightarrow> int \<Rightarrow> rat" where
  "aspect_ratio w h = of_int w / of_int h"

text \<open>\<open>is_center = abs(x + w//2 - center_x) < 25\<close>\<close>

definition is_center :: "int \<Rightarrow> int \<Rightarrow> int \<Rightarrow> bool" where
  "is_center center_x x w = (\<bar>x + w div 2 - center_x\<bar> < 25)"

text \<open>
  The condition of the plus-sign filter:
  \<open>is_center and h < 22 and (0.7 < aspect_ratio < 1.4)\<close>.
\<close>

fun plus_sign :: "int \<Rightarrow> rect \<Rightarrow> bool" where
  "plus_sign center_x (x, y, w, h) =
     (is_center center_x x w \<and> h < 22 \<and>
      (7 / 10 < aspect_ratio w h \<and> aspect_ratio w h < 14 / 10))"

text \<open>
  The body of the \<open>for cnt in contours\<close> loop, as the boxes it appends for one
  bounding rectangle: none after a \<open>continue\<close>, three or two for a wide box, else
  the box itself.
\<close>

fun region_step :: "int \<Rightarrow> rect \<Rightarrow> rect list" where
  "region_step center_x (x, y, w, h) =
     (if h < 18 then []
      else if plus_sign center_x (x, y, w, h) then []
      else if w > 28 then
        (if w > 45 then
           (let d = w div 3 in [(x, y, d, h), (x + d, y, d, h), (x + 2 * d, y, d, h)])
         else [(x, y, w div 2, h), (x + w div 2, y, w div 2, h)])
      else [(x, y, w, h)])"

text \<open>The loop itself, with \<open>boxes\<close> as the accumulator.\<close>

fun collect_boxes :: "int \<Rightarrow> rect list \<Rightarrow> rect list \<Rightarrow> rect list" where
  "collect_boxes center_x [] boxes = boxes"
| "collect_boxes center_x (cnt # contours) boxes =
     collect_boxes center_x contours (boxes @ region_step center_x cnt)"

text \<open>
  \<open>find_character_regions\<close>. The calls into OpenCV (Otsu threshold, erosion,
  \<open>findContours\<close>, \<open>boundingRect\<close>) are the parameter \<open>contours\<close>: the bounding
  rectangles of the external contours of an image, in the order OpenCV yields them.
  \<open>boxes.sort(key=lambda b: b[0])\<close> is a stable sort on x, \<open>boxes[:3]\<close> the first
  three.
\<close>

definition find_character_regions :: "(gray_image \<Rightarrow> rect list) \<Rightarrow> gray_image \<Rightarrow> rect list" where
  "find_character_regions contours img_gray =
     (let center_x = int (cols img_gray) div 2;
          boxes = collect_boxes center_x (contours img_gray) []
      in take 3 (sort_key rect_x boxes))"

section \<open>Exceptions\<close>

text \<open>
  Python's exception hierarchy as far as the handlers of the program tell it apart:
  \<open>except Exception\<close> catches every exception derived from \<open>Exception\<close>, and lets
  \<open>KeyboardInterrupt\<close> and \<open>SystemExit\<close> (derived from \<open>BaseException\<close> only)
  pass. A call that may raise returns \<open>exn + 'a\<close>, \<open>Inl\<close> the exception raised.
\<close>

datatype exn = Exception string | KeyboardInterrupt | SystemExit

fun is_Exception :: "exn \<Rightarrow> bool" where
  "is_Exception (Exception msg) = True"
| "is_Exception KeyboardInterrupt = False"
| "is_Exception SystemExit = False"

section \<open>SmartCaptchaSolver: the model and predict_digit\<close>

text \<open>
  A numpy array of floats: its shape and its elements by index. The quotients
  \<open>v / 255.0\<close> are kept exact.
\<close>

record float_array =
  shape :: "nat list"
  elems :: "nat list \<Rightarrow> rat"

text \<open>
  The loaded Keras model, as \<open>predict_digit\<close> uses it: \<open>model.predict(blob)\<close>
  followed by \<open>np.argmax\<close>, the index of the most probable class, or the exception
  the inference raises.
\<close>

type_synonym keras_model = "float_array \<Rightarrow> exn + nat"

record smart_solver =
  model :: "keras_model option"

text \<open>
  \<open>_load_model\<close>: \<open>path_exists\<close> is \<open>os.path.exists(self.model_path)\<close> and
  \<open>load\<close> what \<open>tf.keras.models.load_model\<close> does when called.
\<close>

definition load_model :: "bool \<Rightarrow> (exn + keras_model) \<Rightarrow> exn + keras_model option" where
  "load_model path_exists load =
     (if path_exists then
        (case load of
           Inr m \<Rightarrow> Inr (Some m)
         | Inl e \<Rightarrow> (if is_Exception e then Inr None else Inl e))
      else Inr None)"

text \<open>\<open>__init__\<close>: the solver holds whatever \<open>_load_model\<close> returned.\<close>

definition init_solver :: "bool \<Rightarrow> (exn + keras_model) \<Rightarrow> exn + smart_solver" where
  "init_solver path_exists load =
     (case load_model path_exists load of
        Inl e \<Rightarrow> Inl e
      | Inr m \<Rightarrow> Inr \<lparr>model = m\<rparr>)"

text \<open>\<open>str\<close> of a non-negative integer: its decimal digits.\<close>

definition digit_char :: "nat \<Rightarrow> char" where
  "digit_char d = ''0123456789'' ! d"

function str_nat :: "nat \<Rightarrow> string" where
  "str_nat n = (if n < 10 then [digit_char n] else str_nat (n div 10) @ [digit_char (n mod 10)])"
  by pat_completeness auto
termination
  by (relation "measure id") auto

declare str_nat.simps [simp del]

text \<open>
  \<open>cv2.copyMakeBorder(src, top, bottom, left, right, cv2.BORDER_CONSTANT, value=0)\<close>:
  the source surrounded by a border of zeros.
\<close>

definition copyMakeBorder :: "gray_image \<Rightarrow> nat \<Rightarrow> nat \<Rightarrow> nat \<Rightarrow> nat \<Rightarrow> gray_image" where
  "copyMakeBorder src top_pad bottom_pad left_pad right_pad =
     \<lparr>rows = top_pad + rows src + bottom_pad,
      cols = left_pad + cols src + right_pad,
      pix = (\<lambda>r c. if r < top_pad \<or> top_pad + rows src \<le> r \<or>
                       c < left_pad \<or> left_pad + cols src \<le> c then 0
                    else pix src (r - top_pad) (c - left_pad))\<rparr>"

text \<open>
  \<open>cv2.resize(src, (width, height))\<close>: an image of \<open>height\<close> rows and \<open>width\<close>
  columns, whose pixels OpenCV interpolates from the source (the parameter
  \<open>interp\<close>); an empty source is refused with \<open>cv2.error\<close>.
\<close>

type_synonym interpolation = "gray_image \<Rightarrow> nat \<Rightarrow> nat \<Rightarrow> nat \<Rightarrow> nat \<Rightarrow> 8 word"

definition resize :: "interpolation \<Rightarrow> gray_image \<Rightarrow> nat \<times> nat \<Rightarrow> exn + gray_image" where
  "resize interp src dsize =
     (if rows src = 0 \<or> cols src = 0 then Inl (Exception ''cv2.error'')
      else Inr \<lparr>rows = snd dsize, cols = fst dsize, pix = interp src (fst dsize) (snd dsize)\<rparr>)"

text \<open>\<open>resized / 255.0\<close>\<close>

definition normalized :: "gray_image \<Rightarrow> float_array" where
  "normalized img =
     \<lparr>shape = [rows img, cols img],
      elems = (\<lambda>idx. of_nat (unat (pix img (idx ! 0) (idx ! 1))) / 255)\<rparr>"

text \<open>\<open>np.expand_dims(a, axis=-1)\<close> and \<open>np.expand_dims(a, axis=0)\<close>\<close>

definition expand_dims_last :: "float_array \<Rightarrow> float_array" where
  "expand_dims_last a = \<lparr>shape = shape a @ [1], elems = (\<lambda>idx. elems a (butlast idx))\<rparr>"

definition expand_dims_first :: "float_array \<Rightarrow> float_array" where
  "expand_dims_first a = \<lparr>shape = 1 # shape a, elems = (\<lambda>idx. elems a (tl idx))\<rparr>"

text \<open>\<open>left_right_pad = max(0, (h - w) // 2)\<close>\<close>

definition left_right_pad :: "nat \<Rightarrow> nat \<Rightarrow> nat" where
  "left_right_pad h w = nat (max 0 ((int h - int w) div 2))"

text \<open>The padding step of \<open>predict_digit\<close> (\<open>top_bottom_pad = 0\<close>).\<close>

definition pad_roi :: "gray_image \<Rightarrow> gray_image" where
  "pad_roi roi =
     (let top_bottom_pad = 0;
          lr = left_right_pad (rows roi) (cols roi)
      in copyMakeBorder roi top_bottom_pad top_bottom_pad lr lr)"

text \<open>The lines from the padding to the blob given to the model.\<close>

definition preprocess :: "interpolation \<Rightarrow> gray_image \<Rightarrow> exn + float_array" where
  "preprocess interp roi =
     (case resize interp (pad_roi roi) (32, 32) of
        Inl e \<Rightarrow> Inl e
      | Inr resized \<Rightarrow> Inr (expand_dims_first (expand_dims_last (normalized resized))))"

text \<open>
  \<open>predict_digit\<close>. Besides the label (or the exception raised) it returns the calls
  it made into OpenCV and the model, in order.
\<close>

datatype call = CopyMakeBorder | Resize | Predict

definition predict_digit :: "smart_solver \<Rightarrow> interpolation \<Rightarrow> gray_image \<Rightarrow> call list \<times> (exn + string)" where
  "predict_digit self interp roi =
     (case model self of
        None \<Rightarrow> ([], Inr ''?'')
      | Some m \<Rightarrow>
          (if rows roi = 0 \<or> cols roi = 0 then ([], Inr ''?'')
           else
             (case preprocess interp roi of
                Inl e \<Rightarrow> ([CopyMakeBorder, Resize], Inl e)
              | Inr blob \<Rightarrow>
                  (case m blob of
                     Inl e \<Rightarrow> ([CopyMakeBorder, Resize, Predict], Inl e)
                   | Inr cls \<Rightarrow> ([CopyMakeBorder, Resize, Predict], Inr (str_nat cls))))))"

section \<open>main.py: captcha_handler\<close>

text \<open>
  What the handler calls outside itself:
  \<^item> \<open>solve\<close>: \<open>CaptchaSolver()\<close> followed by \<open>solver.solve(path)\<close>; it returns a
    string or \<open>None\<close>, or raises;
  \<^item> \<open>platform_system\<close>, \<open>startfile\<close>, \<open>subprocess_call\<close>: the operating system;
  \<^item> \<open>ask_input\<close>: \<open>ui.ask_input(prompt)\<close>, the blocking prompt.
\<close>

record handler_env =
  solve :: "string \<Rightarrow> exn + string option"
  platform_system :: string
  startfile :: "string \<Rightarrow> exn + unit"
  subprocess_call :: "string list \<Rightarrow> exn + unit"
  ask_input :: "string \<Rightarrow> exn + string"

text \<open>
  The console: whether the status animation is running, and what has happened on it,
  oldest first.
\<close>

datatype event =
    PrintSolved string
  | Sleep
  | PrintManual
  | OpenImage string
  | PrintOpened string
  | StatusStop
  | AskInput string
  | StatusStart

record console =
  running :: bool
  events :: "event list"

definition emit :: "event \<Rightarrow> console \<Rightarrow> console" where
  "emit e c = c\<lparr>events := events c @ [e]\<rparr>"

definition status_stop :: "console \<Rightarrow> console" where
  "status_stop c = emit StatusStop (c\<lparr>running := False\<rparr>)"

definition status_start :: "console \<Rightarrow> console" where
  "status_start c = emit StatusStart (c\<lparr>running := True\<rparr>)"

text \<open>
  The handler returns a string; the model tags it with the \<open>return\<close> that produced
  it (\<open>return ai_result\<close> or \<open>return code\<close>). An exception that leaves the handler is
  tagged with the call that raised it.
\<close>

datatype source = Automatic | Human

datatype site = AutoPath | Viewer | Prompt

datatype fault = Fault site exn

text \<open>
  The first \<open>try\<close>: \<open>ai_result\<close> stays \<open>None\<close> when the solver raises an
  \<open>Exception\<close>, which is swallowed.
\<close>

definition try_solve :: "handler_env \<Rightarrow> string \<Rightarrow> exn + string option" where
  "try_solve env path =
     (case solve env path of
        Inr r \<Rightarrow> Inr r
      | Inl e \<Rightarrow> (if is_Exception e then Inr None else Inl e))"

text \<open>Opening the image in the viewer of the operating system.\<close>

definition open_image :: "handler_env \<Rightarrow> string \<Rightarrow> exn + unit" where
  "open_image env path =
     (if platform_system env = ''Windows'' then startfile env path
      else if platform_system env = ''Darwin'' then subprocess_call env [''open'', path]
      else subprocess_call env [''xdg-open'', path])"

text \<open>The manual part of the handler, from the warning to \<open>return code\<close>.\<close>

definition manual_entry :: "handler_env \<Rightarrow> string \<Rightarrow> console \<Rightarrow> (fault + source \<times> string) \<times> console" where
  "manual_entry env path c0 =
     (let c1 = emit PrintManual c0;
          c2 = emit (OpenImage path) c1
      in case open_image env path of
           Inl e \<Rightarrow> (Inl (Fault Viewer e), c2)
         | Inr u \<Rightarrow>
             (let c3 = emit (PrintOpened path) c2;
                  c4 = status_stop c3;
                  prompt = ''Captcha Kodu'';
                  c5 = emit (AskInput prompt) c4
              in case ask_input env prompt of
                   Inl e \<Rightarrow> (Inl (Fault Prompt e), c5)
                 | Inr code \<Rightarrow> (Inr (Human, code), status_start c5)))"

text \<open>
  \<open>captcha_handler\<close>. \<open>if ai_result:\<close> is false for \<open>None\<close> and for the empty
  string.
\<close>

definition captcha_handler :: "handler_env \<Rightarrow> string \<Rightarrow> console \<Rightarrow> (fault + source \<times> string) \<times> console" where
  "captcha_handler env path c0 =
     (case try_solve env path of
        Inl e \<Rightarrow> (Inl (Fault AutoPath e), c0)
      | Inr None \<Rightarrow> manual_entry env path c0
      | Inr (Some ai_result) \<Rightarrow>
          (if ai_result \<noteq> [] then
             (Inr (Automatic, ai_result), emit Sleep (emit (PrintSolved ai_result) c0))
           else manual_entry env path c0))"

text \<open>
  Whether the handler gets past \<open>if ai_result:\<close> to the manual entry: the solver
  returned \<open>None\<close> or the empty string, or raised an \<open>Exception\<close>.
\<close>

definition reaches_manual :: "handler_env \<Rightarrow> string \<Rightarrow> bool" where
  "reaches_manual env path =
     (case try_solve env path of
        Inl e \<Rightarrow> False
      | Inr None \<Rightarrow> True
      | Inr (Some ai_result) \<Rightarrow> ai_result = [])"

text \<open>
  Modelled from the spec: \<open>CaptchaSolver.solve\<close>, of
  \<open>src/services/captcha_solver/captcha_solver.py\<close>, which is not among the sources.
  The spec has it run the segmenter, classify each region in order and concatenate the
  labels, an automatic result being empty when there is no region or any label is
  unknown. \<open>labels\<close> are the labels of the regions, in order.
\<close>

definition unknown :: string where
  "unknown = ''?''"

definition solve_spec :: "string list \<Rightarrow> string" where
  "solve_spec labels = (if labels = [] \<or> unknown \<in> set labels then [] else concat labels)"

section \<open>auto_collect_digits.py: main\<close>

text \<open>The disk: the paths that are files and the paths that are directories.\<close>

record disk =
  files :: "string set"
  dirs :: "string set"

definition path_exists :: "disk \<Rightarrow> string \<Rightarrow> bool" where
  "path_exists d p = (p \<in> files d \<or> p \<in> dirs d)"

text \<open>
  \<open>os.remove\<close> deletes a file; it raises on a directory and on a path that does not
  exist.
\<close>

definition os_remove :: "disk \<Rightarrow> string \<Rightarrow> exn + disk" where
  "os_remove d p =
     (if p \<in> dirs d then Inl (Exception ''IsADirectoryError'')
      else if p \<in> files d then Inr (d\<lparr>files := files d - {p}\<rparr>)
      else Inl (Exception ''FileNotFoundError''))"

definition makedirs :: "disk \<Rightarrow> string \<Rightarrow> bool \<Rightarrow> exn + disk" where
  "makedirs d p exist_ok =
     (if p \<in> dirs d then (if exist_ok then Inr d else Inl (Exception ''FileExistsError''))
      else if p \<in> files d then Inl (Exception ''FileExistsError'')
      else Inr (d\<lparr>dirs := insert p (dirs d)\<rparr>))"

text \<open>\<open>cv2.imwrite\<close> writes the file, or returns False (ignored) over a directory.\<close>

definition imwrite :: "disk \<Rightarrow> string \<Rightarrow> disk" where
  "imwrite d p = (if p \<in> dirs d then d else d\<lparr>files := insert p (files d)\<rparr>)"

text \<open>\<open>os.path.join\<close> of two components.\<close>

definition path_join :: "string \<Rightarrow> string \<Rightarrow> string" where
  "path_join a b =
     (if b \<noteq> [] \<and> hd b = CHR ''/'' then b
      else if a = [] \<or> last a = CHR ''/'' then a @ b
      else a @ ''/'' @ b)"

text \<open>\<open>if os.path.exists(captcha_path): os.remove(captcha_path)\<close>\<close>

definition remove_if_exists :: "disk \<Rightarrow> string \<Rightarrow> exn + disk" where
  "remove_if_exists d p = (if path_exists d p then os_remove d p else Inr d)"

text \<open>
  \<open>img_gray[0:img_h, x_start:x_end]\<close>: all rows, and the columns of a Python slice
  (a negative bound counts from the end, bounds are clipped, an empty range gives no
  column).
\<close>

definition slice_bound :: "int \<Rightarrow> int \<Rightarrow> int" where
  "slice_bound n i = (if i < 0 then max 0 (i + n) else min i n)"

definition slice_cols :: "gray_image \<Rightarrow> int \<Rightarrow> int \<Rightarrow> gray_image" where
  "slice_cols img x_start x_end =
     (let n = int (cols img);
          lo = slice_bound n x_start;
          hi = slice_bound n x_end
      in \<lparr>rows = rows img, cols = nat (max 0 (hi - lo)),
          pix = (\<lambda>r c. pix img r (c + nat lo))\<rparr>)"

text \<open>
  What \<open>main\<close> calls outside itself: \<open>download i\<close> is the page fetch and
  \<open>client._download_captcha\<close> of iteration \<open>i\<close> (the path of the file it wrote, a
  falsy value, or an exception; and the disk it leaves), \<open>imread\<close> is
  \<open>cv2.imread\<close> (\<open>None\<close> for a file it cannot decode), \<open>uuid_hex12 n\<close> the first
  twelve hex digits of the \<open>n\<close>-th \<open>uuid4\<close>.
\<close>

record collect_env =
  download :: "nat \<Rightarrow> disk \<Rightarrow> (exn + string option) \<times> disk"
  imread :: "disk \<Rightarrow> string \<Rightarrow> gray_image option"
  find_contours :: "gray_image \<Rightarrow> rect list"
  interpolate :: interpolation
  uuid_hex12 :: "nat \<Rightarrow> string"
  dataset_digits_dir :: string

record collect_state =
  the_disk :: disk
  success_count :: nat
  uuid_calls :: nat
  parsed_digits :: string

text \<open>
  The body of \<open>for x, y, w, h in boxes\<close>: \<open>None\<close> when it ends (also by
  \<open>continue\<close>), the exception when it raises; the state as it is left either way.
\<close>

fun save_box :: "collect_env \<Rightarrow> smart_solver \<Rightarrow> gray_image \<Rightarrow> collect_state \<Rightarrow> rect \<Rightarrow> exn option \<times> collect_state" where
  "save_box env solver img_gray st (x, y, w, h) =
     (let pad = 3;
          x_start = max 0 (x - pad);
          x_end = min (int (cols img_gray)) (x + w + pad);
          roi = slice_cols img_gray x_start x_end
      in case snd (predict_digit solver (interpolate env) roi) of
           Inl e \<Rightarrow> (Some e, st)
         | Inr digit_label \<Rightarrow>
             (if digit_label = ''?'' then (None, st)
              else
                (let st1 = st\<lparr>parsed_digits := parsed_digits st @ digit_label\<rparr>;
                     t_b_pad = 0;
                     l_r_pad = left_right_pad (rows roi) (cols roi);
                     padded_roi = copyMakeBorder roi t_b_pad t_b_pad l_r_pad l_r_pad
                 in case resize (interpolate env) padded_roi (32, 32) of
                      Inl e \<Rightarrow> (Some e, st1)
                    | Inr final_img \<Rightarrow>
                        (let save_dir = path_join (dataset_digits_dir env) digit_label
                         in case (if \<not> path_exists (the_disk st1) save_dir
                                  then makedirs (the_disk st1) save_dir False
                                  else Inr (the_disk st1)) of
                              Inl e \<Rightarrow> (Some e, st1)
                            | Inr d2 \<Rightarrow>
                                (let save_filename = uuid_hex12 env (uuid_calls st1) @ ''.png''
                                 in (None,
                                     st1\<lparr>the_disk := imwrite d2 (path_join save_dir save_filename),
                                         uuid_calls := Suc (uuid_calls st1)\<rparr>))))))"

fun save_boxes :: "collect_env \<Rightarrow> smart_solver \<Rightarrow> gray_image \<Rightarrow> collect_state \<Rightarrow> rect list \<Rightarrow> exn option \<times> collect_state" where
  "save_boxes env solver img_gray st [] = (None, st)"
| "save_boxes env solver img_gray st (b # boxes) =
     (case save_box env solver img_gray st b of
        (Some e, st') \<Rightarrow> (Some e, st')
      | (None, st') \<Rightarrow> save_boxes env solver img_gray st' boxes)"

text \<open>How the \<open>try\<close> block of one iteration ends when it does not raise.\<close>

datatype pass = DownloadFailed | DecodeFailed | NoRegions | Persisted string

text \<open>The \<open>try\<close> block of iteration \<open>i\<close>.\<close>

definition try_block :: "collect_env \<Rightarrow> smart_solver \<Rightarrow> nat \<Rightarrow> collect_state \<Rightarrow> (exn + pass) \<times> collect_state" where
  "try_block env solver i st =
     (case download env i (the_disk st) of
        (Inl e, d1) \<Rightarrow> (Inl e, st\<lparr>the_disk := d1\<rparr>)
      | (Inr None, d1) \<Rightarrow> (Inr DownloadFailed, st\<lparr>the_disk := d1\<rparr>)
      | (Inr (Some captcha_path), d1) \<Rightarrow>
          (let st1 = st\<lparr>the_disk := d1\<rparr> in
           if captcha_path = [] then (Inr DownloadFailed, st1)
           else
             (case imread env d1 captcha_path of
                None \<Rightarrow>
                  (case remove_if_exists d1 captcha_path of
                     Inl e \<Rightarrow> (Inl e, st1)
                   | Inr d2 \<Rightarrow> (Inr DecodeFailed, st1\<lparr>the_disk := d2\<rparr>))
              | Some img_gray \<Rightarrow>
                  (let boxes = find_character_regions (find_contours env) img_gray in
                   if boxes = [] then
                     (case remove_if_exists d1 captcha_path of
                        Inl e \<Rightarrow> (Inl e, st1)
                      | Inr d2 \<Rightarrow> (Inr NoRegions, st1\<lparr>the_disk := d2\<rparr>))
                   else
                     (case save_boxes env solver img_gray (st1\<lparr>parsed_digits := []\<rparr>) boxes of
                        (Some e, st2) \<Rightarrow> (Inl e, st2)
                      | (None, st2) \<Rightarrow>
                          (let st3 = st2\<lparr>success_count := Suc (success_count st2)\<rparr> in
                           case remove_if_exists (the_disk st3) captcha_path of
                             Inl e \<Rightarrow> (Inl e, st3)
                           | Inr d4 \<Rightarrow> (Inr (Persisted (parsed_digits st3)), st3\<lparr>the_disk := d4\<rparr>)))))))"

text \<open>
  One iteration with its handlers: \<open>except KeyboardInterrupt: break\<close>,
  \<open>except Exception: continue\<close>; any other exception leaves the loop.
\<close>

datatype step = Next pass | Skipped exn | Break | Propagated exn

definition collect_iteration :: "collect_env \<Rightarrow> smart_solver \<Rightarrow> nat \<Rightarrow> collect_state \<Rightarrow> step \<times> collect_state" where
  "collect_iteration env solver i st =
     (case try_block env solver i st of
        (Inr p, st') \<Rightarrow> (Next p, st')
      | (Inl e, st') \<Rightarrow>
          (if e = KeyboardInterrupt then (Break, st')
           else if is_Exception e then (Skipped e, st')
           else (Propagated e, st')))"

text \<open>\<open>for i in range(total_samples)\<close>, from iteration \<open>i\<close> with \<open>n\<close> to go.\<close>

fun collect_loop :: "collect_env \<Rightarrow> smart_solver \<Rightarrow> nat \<Rightarrow> nat \<Rightarrow> collect_state \<Rightarrow> exn option \<times> collect_state" where
  "collect_loop env solver i 0 st = (None, st)"
| "collect_loop env solver i (Suc n) st =
     (case collect_iteration env solver i st of
        (Break, st') \<Rightarrow> (None, st')
      | (Propagated e, st') \<Rightarrow> (Some e, st')
      | (Next p, st') \<Rightarrow> collect_loop env solver (Suc i) n st'
      | (Skipped e, st') \<Rightarrow> collect_loop env solver (Suc i) n st')"

definition total_samples :: nat where
  "total_samples = 50"

text \<open>
  The directories \<open>main\<close> creates when \<open>dataset_digits\<close> does not exist yet: the
  directory itself and one per digit (\<open>exist_ok=True\<close>).
\<close>

fun make_digit_dirs :: "string \<Rightarrow> nat list \<Rightarrow> disk \<Rightarrow> exn + disk" where
  "make_digit_dirs root_dir [] d = Inr d"
| "make_digit_dirs root_dir (i # is) d =
     (case makedirs d (path_join root_dir (str_nat i)) True of
        Inl e \<Rightarrow> Inl e
      | Inr d' \<Rightarrow> make_digit_dirs root_dir is d')"

definition setup_dataset :: "string \<Rightarrow> disk \<Rightarrow> exn + disk" where
  "setup_dataset root_dir d =
     (if \<not> path_exists d root_dir then
        (case makedirs d root_dir False of
           Inl e \<Rightarrow> Inl e
         | Inr d' \<Rightarrow> make_digit_dirs root_dir [0..<10] d')
      else Inr d)"

text \<open>
  \<open>main\<close>: the set-up, the solver, the loop. It returns the exception that leaves
  it, if any, and the state at the end.
\<close>

definition collect_main :: "collect_env \<Rightarrow> bool \<Rightarrow> (exn + keras_model) \<Rightarrow> disk \<Rightarrow> exn option \<times> collect_state" where
  "collect_main env model_exists load d0 =
     (let st0 = \<lparr>the_disk = d0, success_count = 0, uuid_calls = 0, parsed_digits = []\<rparr> in
      case setup_dataset (dataset_digits_dir env) d0 of
        Inl e \<Rightarrow> (Some e, st0)
      | Inr d1 \<Rightarrow>
          (case init_solver model_exists load of
             Inl e \<Rightarrow> (Some e, st0\<lparr>the_disk := d1\<rparr>)
           | Inr solver \<Rightarrow> collect_loop env solver 0 total_samples (st0\<lparr>the_disk := d1\<rparr>)))"

section \<open>Properties of the segmenter\<close>

lemma collect_boxes_concat:
  "collect_boxes cx cs boxes = boxes @ concat (map (region_step cx) cs)"
  by (induction cs arbitrary: boxes) simp_all

lemma sorted_take_map:
  "sorted (map f xs) \<Longrightarrow> sorted (map f (take n xs))"
  by (simp add: take_map [symmetric] sorted_wrt_take)

text \<open>
  C3. For every image (whatever contours OpenCV finds in it),
  \<open>find_character_regions\<close> returns at most three boxes, in ascending order of x.
\<close>

theorem find_character_regions_at_most_3_sorted:
  "length (find_character_regions contours img) \<le> 3 \<and>
   sorted (map rect_x (find_character_regions contours img))"
  by (simp add: find_character_regions_def Let_def sorted_take_map)

lemma set_collect_boxes:
  "set (collect_boxes cx cs boxes) = set boxes \<union> (\<Union>c \<in> set cs. set (region_step cx c))"
  by (simp add: collect_boxes_concat)

lemma region_step_narrow:
  "b \<in> set (region_step cx c) \<Longrightarrow> rect_w c \<le> 28 \<Longrightarrow> b = c \<and> \<not> plus_sign cx c"
  by (cases c) (auto split: if_splits)

lemma region_step_wide:
  assumes "18 \<le> h" and "\<not> plus_sign cx (x, y, w, h)" and "28 < w"
  shows "region_step cx (x, y, w, h) =
     (if 45 < w then [(x, y, w div 3, h), (x + w div 3, y, w div 3, h), (x + 2 * (w div 3), y, w div 3, h)]
      else [(x, y, w div 2, h), (x + w div 2, y, w div 2, h)])"
  using assms by (simp add: Let_def del: plus_sign.simps)

text \<open>
  C4, as the claim states it, fails twice. A box of width 47 is split into three boxes
  of width 15, whose widths sum to 45: two pixels short, not one. And a wide box is
  only split when it survives the two filters before the split: a box 40 wide and 10
  high is dropped as noise.
\<close>

theorem split_widths_counterexample:
  "(28::int) < 47 \<and>
   region_step 75 (10, 5, 47, 30) = [(10, 5, 15, 30), (25, 5, 15, 30), (40, 5, 15, 30)] \<and>
   \<not> \<bar>47 - sum_list (map rect_w (region_step 75 (10, 5, 47, 30)))\<bar> \<le> 1 \<and>
   (28::int) < 40 \<and> region_step 75 (10, 5, 40, 10) = []"
  by (simp add: is_center_def aspect_ratio_def)

text \<open>
  C4, amended. A bounding box that passes the height filter and the plus-sign filter
  and is wider than 28 is replaced by \<open>k\<close> boxes, \<open>k = 3\<close> when it is wider than 45
  and \<open>k = 2\<close> otherwise: each of width \<open>w div k\<close>, with the y and the height of the
  original, side by side from the original x; their widths sum to the original width
  less a remainder smaller than \<open>k\<close> (at most 1 pixel for two boxes, at most 2 for
  three).
\<close>

theorem region_step_split:
  assumes "18 \<le> h" and "\<not> plus_sign cx (x, y, w, h)" and "28 < w"
  shows "let bs = region_step cx (x, y, w, h); k = (if 45 < w then 3 else 2) in
           int (length bs) = k \<and>
           (\<forall>b \<in> set bs. rect_w b = w div k \<and> rect_y b = y \<and> rect_h b = h) \<and>
           map rect_x bs = map (\<lambda>j. x + int j * (w div k)) [0..<length bs] \<and>
           0 \<le> w - sum_list (map rect_w bs) \<and> w - sum_list (map rect_w bs) < k"
proof (cases "45 < w")
  case True
  have "3 * (w div 3) \<le> w" "w - 3 * (w div 3) < 3" by presburger+
  with True show ?thesis
    by (simp add: region_step_wide [OF assms] Let_def upt_rec del: region_step.simps)
next
  case False
  have "2 * (w div 2) \<le> w" "w - 2 * (w div 2) < 2" by presburger+
  with False show ?thesis
    by (simp add: region_step_wide [OF assms] Let_def upt_rec del: region_step.simps)
qed

theorem region_step_split_witness:
  "(18::int) \<le> 30 \<and> \<not> plus_sign 75 (10, 5, 47, 30) \<and> (28::int) < 47 \<and>
   region_step 75 (10, 5, 47, 30) = [(10, 5, 15, 30), (25, 5, 15, 30), (40, 5, 15, 30)] \<and>
   47 - sum_list (map rect_w (region_step 75 (10, 5, 47, 30))) = 2"
  using region_step_split [of 30 75 10 5 47]
  by (simp add: is_center_def aspect_ratio_def)

text \<open>
  C5, as the claim states it, fails for the boxes of a split. In an image 150 wide a
  contour box 40 wide and 20 high at x = 60 is not a plus sign (its aspect ratio is 2)
  and is split in two; its left half is 20 by 20 and 5 pixels from the centre: the
  condition of the filter holds of it, and it is in the output.
\<close>

theorem separator_after_split_counterexample:
  "find_character_regions (\<lambda>img. [(60, 5, 40, 20)]) \<lparr>rows = 50, cols = 150, pix = \<lambda>r c. 0\<rparr>
     = [(60, 5, 20, 20), (80, 5, 20, 20)] \<and>
   plus_sign (int (cols \<lparr>rows = 50, cols = 150, pix = \<lambda>r c. 0\<rparr>) div 2) (60, 5, 20, 20)"
  by (simp add: find_character_regions_def is_center_def aspect_ratio_def)

text \<open>
  C5, amended. The filter is applied to the bounding boxes of the contours, before the
  split. So a region of the output that is near the centre, near-square and lower than
  22 is never a contour's box kept as it is: it is one of the parts of a contour box
  wider than 28.
\<close>

theorem regions_separator_only_from_split:
  assumes "b \<in> set (find_character_regions contours img)"
    and "plus_sign (int (cols img) div 2) b"
  shows "\<exists>c \<in> set (contours img). 28 < rect_w c \<and> b \<in> set (region_step (int (cols img) div 2) c)"
proof -
  let ?cx = "int (cols img) div 2"
  from assms(1) have "b \<in> set (sort_key rect_x (collect_boxes ?cx (contours img) []))"
    by (auto simp: find_character_regions_def Let_def dest: in_set_takeD)
  then obtain c where c: "c \<in> set (contours img)" "b \<in> set (region_step ?cx c)"
    by (auto simp: set_collect_boxes)
  have "28 < rect_w c"
  proof (rule ccontr)
    assume "\<not> 28 < rect_w c"
    with c(2) have "b = c \<and> \<not> plus_sign ?cx c" by (intro region_step_narrow) auto
    with assms(2) show False by simp
  qed
  with c show ?thesis by blast
qed

theorem regions_separator_only_from_split_witness:
  "(60, 5, 20, 20) \<in> set (find_character_regions (\<lambda>img. [(60, 5, 40, 20)]) \<lparr>rows = 50, cols = 150, pix = \<lambda>r c. 0\<rparr>) \<and>
   plus_sign (int (cols \<lparr>rows = 50, cols = 150, pix = \<lambda>r c. 0\<rparr>) div 2) (60, 5, 20, 20) \<and>
   (28::int) < rect_w (60, 5, 40, 20) \<and>
   (60, 5, 20, 20) \<in> set (region_step 75 (60, 5, 40, 20))"
  using regions_separator_only_from_split [of "(60, 5, 20, 20)" "\<lambda>img. [(60, 5, 40, 20)]" "\<lparr>rows = 50, cols = 150, pix = \<lambda>r c. 0\<rparr>"]
  by (simp add: find_character_regions_def is_center_def aspect_ratio_def)

section \<open>Properties of the classifier\<close>

lemma left_right_pad_half: "w < h \<Longrightarrow> left_right_pad h w = (h - w) div 2"
  unfolding left_right_pad_def by (simp add: max_def)

lemma left_right_pad_square:
  "w < h \<Longrightarrow> h \<le> w + 2 * left_right_pad h w + 1 \<and> w + 2 * left_right_pad h w \<le> h"
  unfolding left_right_pad_half by linarith

lemma left_right_pad_wide: "h \<le> w \<Longrightarrow> left_right_pad h w = 0"
  unfolding left_right_pad_def by (simp add: max_def)

lemma rows_pad_roi: "rows (pad_roi roi) = rows roi"
  by (simp add: pad_roi_def copyMakeBorder_def Let_def)

lemma cols_pad_roi: "cols (pad_roi roi) = cols roi + 2 * left_right_pad (rows roi) (cols roi)"
  by (simp add: pad_roi_def copyMakeBorder_def Let_def)

lemma pix_pad_roi:
  "pix (pad_roi roi) r c =
     (if rows roi \<le> r \<or> c < left_right_pad (rows roi) (cols roi) \<or>
         left_right_pad (rows roi) (cols roi) + cols roi \<le> c then 0
      else pix roi r (c - left_right_pad (rows roi) (cols roi)))"
  by (simp add: pad_roi_def copyMakeBorder_def Let_def)

lemma resize_nonempty:
  "rows src \<noteq> 0 \<Longrightarrow> cols src \<noteq> 0 \<Longrightarrow>
   resize interp src (wd, ht) = Inr \<lparr>rows = ht, cols = wd, pix = interp src wd ht\<rparr>"
  by (simp add: resize_def)

lemma normalized_range: "0 \<le> elems (normalized img) idx \<and> elems (normalized img) idx \<le> 1"
proof -
  define n where "n = unat (pix img (idx ! 0) (idx ! 1))"
  have "n < 2 ^ 8"
    unfolding n_def using unsigned_less [of "pix img (idx ! 0) (idx ! 1)", where ?'a = nat] by simp
  then have n: "n \<le> 255" by simp
  have e: "elems (normalized img) idx = of_nat n / 255"
    by (simp only: normalized_def float_array.select_convs n_def)
  have "(of_nat n :: rat) \<le> of_nat 255"
    using n by (simp only: of_nat_le_iff)
  then show ?thesis unfolding e by simp
qed

lemma preprocess_nonempty:
  assumes "rows roi \<noteq> 0" and "cols roi \<noteq> 0"
  shows "preprocess interp roi =
     Inr (expand_dims_first (expand_dims_last (normalized
       \<lparr>rows = 32, cols = 32, pix = interp (pad_roi roi) 32 32\<rparr>)))"
  using assms by (simp add: preprocess_def resize_def rows_pad_roi cols_pad_roi)

lemma blob_elems:
  "elems (expand_dims_first (expand_dims_last (normalized img))) [b, r, c, ch] =
     of_nat (unat (pix img r c)) / 255"
  by (simp add: expand_dims_first_def expand_dims_last_def normalized_def)

text \<open>
  C6. With a model loaded and a crop that is not empty, \<open>predict_digit\<close> pads the crop
  with the same number of zero columns on the left and on the right and no row (so a
  crop narrower than high becomes as wide as high, within one pixel; a crop at least as
  wide as high is left as it is), resizes the padded image to a canvas of 32 rows and
  32 columns (its pixels are the interpolation of the padded crop), and gives the model
  one array of shape (1, 32, 32, 1) whose element at row \<open>r\<close> and column \<open>c\<close> is the
  canvas pixel there divided by 255, a value from 0 to 1; the label is the decimal index
  the model answers for that array.
\<close>

theorem predict_digit_preprocessing:
  assumes "model self = Some m" and "rows roi \<noteq> 0" and "cols roi \<noteq> 0"
  shows "\<exists>canvas blob.
           rows (pad_roi roi) = rows roi \<and>
           cols (pad_roi roi) = cols roi + 2 * left_right_pad (rows roi) (cols roi) \<and>
           (\<forall>r c. c < left_right_pad (rows roi) (cols roi) \<or>
                   left_right_pad (rows roi) (cols roi) + cols roi \<le> c \<longrightarrow> pix (pad_roi roi) r c = 0) \<and>
           (\<forall>r c. r < rows roi \<and> c < cols roi \<longrightarrow>
                   pix (pad_roi roi) r (left_right_pad (rows roi) (cols roi) + c) = pix roi r c) \<and>
           (cols roi < rows roi \<longrightarrow>
              rows roi \<le> cols (pad_roi roi) + 1 \<and> cols (pad_roi roi) \<le> rows roi) \<and>
           (rows roi \<le> cols roi \<longrightarrow> cols (pad_roi roi) = cols roi) \<and>
           resize interp (pad_roi roi) (32, 32) = Inr canvas \<and>
           rows canvas = 32 \<and> cols canvas = 32 \<and>
           (\<forall>r c. pix canvas r c = interp (pad_roi roi) 32 32 r c) \<and>
           preprocess interp roi = Inr blob \<and>
           shape blob = [1, 32, 32, 1] \<and>
           (\<forall>b r c ch. elems blob [b, r, c, ch] = of_nat (unat (pix canvas r c)) / 255) \<and>
           (\<forall>idx. 0 \<le> elems blob idx \<and> elems blob idx \<le> 1) \<and>
           predict_digit self interp roi =
             ([CopyMakeBorder, Resize, Predict],
              case m blob of Inl e \<Rightarrow> Inl e | Inr cls \<Rightarrow> Inr (str_nat cls))"
proof -
  let ?p = "left_right_pad (rows roi) (cols roi)"
  let ?canvas = "\<lparr>rows = 32, cols = 32, pix = interp (pad_roi roi) 32 32\<rparr>"
  let ?blob = "expand_dims_first (expand_dims_last (normalized ?canvas))"
  have pre: "preprocess interp roi = Inr ?blob"
    by (rule preprocess_nonempty [OF assms(2,3)])
  have rs: "resize interp (pad_roi roi) (32, 32) = Inr ?canvas"
    using assms(2,3) by (simp add: resize_def rows_pad_roi cols_pad_roi)
  have sh: "shape ?blob = [1, 32, 32, 1]"
    by (simp add: expand_dims_first_def expand_dims_last_def normalized_def)
  have el: "\<forall>b r c ch. elems ?blob [b, r, c, ch] = of_nat (unat (pix ?canvas r c)) / 255"
    by (intro allI) (rule blob_elems)
  have rg: "\<forall>idx. 0 \<le> elems ?blob idx \<and> elems ?blob idx \<le> 1"
    using normalized_range by (simp add: expand_dims_first_def expand_dims_last_def)
  have zero: "\<forall>r c. c < ?p \<or> ?p + cols roi \<le> c \<longrightarrow> pix (pad_roi roi) r c = 0"
    by (auto simp: pix_pad_roi)
  have mid: "\<forall>r c. r < rows roi \<and> c < cols roi \<longrightarrow> pix (pad_roi roi) r (?p + c) = pix roi r c"
    by (simp add: pix_pad_roi)
  have sq: "cols roi < rows roi \<longrightarrow> rows roi \<le> cols (pad_roi roi) + 1 \<and> cols (pad_roi roi) \<le> rows roi"
    using left_right_pad_square [of "cols roi" "rows roi"] by (simp add: cols_pad_roi)
  have wide: "rows roi \<le> cols roi \<longrightarrow> cols (pad_roi roi) = cols roi"
    by (simp add: cols_pad_roi left_right_pad_wide)
  have pd: "predict_digit self interp roi =
      ([CopyMakeBorder, Resize, Predict], case m ?blob of Inl e \<Rightarrow> Inl e | Inr cls \<Rightarrow> Inr (str_nat cls))"
    using assms by (simp add: predict_digit_def pre split: sum.splits)
  show ?thesis
    using pre rs sh el rg zero mid sq wide pd rows_pad_roi cols_pad_roi
    by (intro exI [of _ ?canvas] exI [of _ ?blob]) simp
qed

theorem predict_digit_preprocessing_witness:
  "model \<lparr>model = Some (\<lambda>blob. Inr 7)\<rparr> = Some (\<lambda>blob. Inr 7) \<and>
   rows \<lparr>rows = 6, cols = 3, pix = \<lambda>r c. 255\<rparr> \<noteq> 0 \<and>
   cols \<lparr>rows = 6, cols = 3, pix = \<lambda>r c. 255\<rparr> \<noteq> 0 \<and>
   cols (pad_roi \<lparr>rows = 6, cols = 3, pix = \<lambda>r c. 255\<rparr>) = 5 \<and>
   (case preprocess (\<lambda>src wd ht r c. pix src (r * rows src div ht) (c * cols src div wd))
           \<lparr>rows = 6, cols = 3, pix = \<lambda>r c. 255\<rparr> of
      Inl e \<Rightarrow> False
    | Inr blob \<Rightarrow> shape blob = [1, 32, 32, 1] \<and>
                  elems blob [0, 0, 0, 0] = 0 \<and> elems blob [0, 0, 16, 0] = 1) \<and>
   predict_digit \<lparr>model = Some (\<lambda>blob. Inr 7)\<rparr>
     (\<lambda>src wd ht r c. pix src (r * rows src div ht) (c * cols src div wd))
     \<lparr>rows = 6, cols = 3, pix = \<lambda>r c. 255\<rparr> = ([CopyMakeBorder, Resize, Predict], Inr ''7'')"
proof -
  let ?self = "\<lparr>model = Some (\<lambda>blob. Inr 7)\<rparr>"
  let ?roi = "\<lparr>rows = 6, cols = 3, pix = \<lambda>r c. 255\<rparr>"
  let ?ip = "\<lambda>src wd ht r c. pix src (r * rows src div ht) (c * cols src div wd)"
  have h1: "model ?self = Some (\<lambda>blob. Inr 7)" by simp
  have h2: "rows ?roi \<noteq> 0" by simp
  have h3: "cols ?roi \<noteq> 0" by simp
  note t = predict_digit_preprocessing [OF h1 h2 h3, of ?ip]
  have l: "left_right_pad 6 3 = 1" by (simp add: left_right_pad_def)
  from t have "cols (pad_roi ?roi) = cols ?roi + 2 * left_right_pad (rows ?roi) (cols ?roi)"
    by (elim exE conjE)
  with l have c: "cols (pad_roi ?roi) = 5" by simp
  have b: "(case preprocess ?ip ?roi of
      Inl e \<Rightarrow> False
    | Inr blob \<Rightarrow> shape blob = [1, 32, 32, 1] \<and>
                  elems blob [0, 0, 0, 0] = 0 \<and> elems blob [0, 0, 16, 0] = 1)"
    by (simp add: preprocess_nonempty blob_elems pix_pad_roi rows_pad_roi cols_pad_roi l
        expand_dims_first_def expand_dims_last_def normalized_def)
  have p: "predict_digit ?self ?ip ?roi = ([CopyMakeBorder, Resize, Predict], Inr ''7'')"
    by (simp add: predict_digit_def preprocess_nonempty str_nat.simps digit_char_def)
  show ?thesis using t h1 h2 h3 c b p by (intro conjI)
qed

text \<open>
  C7. A solver without a model answers \<open>''?''\<close> for every crop, calling neither
  OpenCV nor a model, and raises nothing. That is the solver \<open>__init__\<close> builds when
  the weights file is missing, or when loading it raises an \<open>Exception\<close>.
\<close>

theorem predict_digit_no_model:
  "predict_digit \<lparr>model = None\<rparr> interp roi = ([], Inr ''?'') \<and>
   load_model False load = Inr None \<and>
   load_model True (Inl (Exception msg)) = Inr None \<and>
   init_solver False load = Inr \<lparr>model = None\<rparr> \<and>
   init_solver True (Inl (Exception msg)) = Inr \<lparr>model = None\<rparr>"
  by (simp add: predict_digit_def load_model_def init_solver_def)

text \<open>
  C10. For a crop with no row or no column \<open>predict_digit\<close> returns \<open>''?''\<close>,
  whatever the solver holds, without padding, resizing or inference: no call is made,
  so neither \<open>cv2.resize\<close> nor the model can raise.
\<close>

theorem predict_digit_empty_roi:
  assumes "rows roi = 0 \<or> cols roi = 0"
  shows "predict_digit self interp roi = ([], Inr ''?'')"
  using assms by (auto simp: predict_digit_def split: option.splits)

theorem predict_digit_empty_roi_witness:
  "(rows \<lparr>rows = 5, cols = 0, pix = \<lambda>r c. 0\<rparr> = 0 \<or> cols \<lparr>rows = 5, cols = 0, pix = \<lambda>r c. 0\<rparr> = 0) \<and>
   predict_digit \<lparr>model = Some (\<lambda>blob. Inl (Exception ''inference''))\<rparr> (\<lambda>src wd ht r c. 0)
     \<lparr>rows = 5, cols = 0, pix = \<lambda>r c. 0\<rparr> = ([], Inr ''?'')"
  using predict_digit_empty_roi [of "\<lparr>rows = 5, cols = 0, pix = \<lambda>r c. 0\<rparr>"
      "\<lparr>model = Some (\<lambda>blob. Inl (Exception ''inference''))\<rparr>" "\<lambda>src wd ht r c. 0"]
  by simp

section \<open>Properties of the handler\<close>

lemma manual_entry_not_automatic: "fst (manual_entry env path c0) \<noteq> Inr (Automatic, code)"
  by (simp add: manual_entry_def Let_def split: sum.splits)

lemma manual_entry_not_auto_fault: "fst (manual_entry env path c0) \<noteq> Inl (Fault AutoPath e)"
  by (simp add: manual_entry_def Let_def split: sum.splits)


lemma manual_entry_opens:
  "OpenImage path \<in> set (events (snd (manual_entry env path c0)))"
  by (simp add: manual_entry_def Let_def emit_def status_stop_def status_start_def split: sum.splits)



lemma solve_spec_empty_iff:
  "solve_spec labels = [] \<longleftrightarrow> labels = [] \<or> unknown \<in> set labels \<or> concat labels = []"
  by (auto simp: solve_spec_def)



text \<open>
  C2. An \<open>Exception\<close> raised by the solver (its construction, segmentation,
  classification) is swallowed: the handler does exactly what the manual entry does,
  opening the image for the operator; no exception of the automatic path leaves the
  handler, and no automatic code is returned.
\<close>

theorem captcha_handler_catches:
  assumes "solve env path = Inl e" and "is_Exception e"
  shows "captcha_handler env path c0 = manual_entry env path c0 \<and>
         OpenImage path \<in> set (events (snd (captcha_handler env path c0))) \<and>
         (\<forall>e'. fst (captcha_handler env path c0) \<noteq> Inl (Fault AutoPath e')) \<and>
         (\<forall>code. fst (captcha_handler env path c0) \<noteq> Inr (Automatic, code))"
proof -
  from assms have m: "captcha_handler env path c0 = manual_entry env path c0"
    by (simp add: captcha_handler_def try_solve_def)
  show ?thesis
    by (simp add: m manual_entry_opens manual_entry_not_auto_fault manual_entry_not_automatic)
qed

theorem captcha_handler_catches_witness:
  "solve \<lparr>solve = \<lambda>p. Inl (Exception ''model''), platform_system = ''Linux'',
           startfile = \<lambda>p. Inr (), subprocess_call = \<lambda>args. Inr (),
           ask_input = \<lambda>prompt. Inr ''739''\<rparr> ''captcha.png'' = Inl (Exception ''model'') \<and>
   is_Exception (Exception ''model'') \<and>
   captcha_handler
     \<lparr>solve = \<lambda>p. Inl (Exception ''model''), platform_system = ''Linux'',
       startfile = \<lambda>p. Inr (), subprocess_call = \<lambda>args. Inr (),
       ask_input = \<lambda>prompt. Inr ''739''\<rparr> ''captcha.png'' \<lparr>running = True, events = []\<rparr>
     = (Inr (Human, ''739''),
        \<lparr>running = True,
          events = [PrintManual, OpenImage ''captcha.png'', PrintOpened ''captcha.png'',
                    StatusStop, AskInput ''Captcha Kodu'', StatusStart]\<rparr>)"
  using captcha_handler_catches [of
      "\<lparr>solve = \<lambda>p. Inl (Exception ''model''), platform_system = ''Linux'',
        startfile = \<lambda>p. Inr (), subprocess_call = \<lambda>args. Inr (),
        ask_input = \<lambda>prompt. Inr ''739''\<rparr>" "''captcha.png''" "Exception ''model''"
      "\<lparr>running = True, events = []\<rparr>"]
  by (simp add: manual_entry_def open_image_def emit_def status_stop_def status_start_def)

lemma reaches_manual_handler:
  "reaches_manual env path \<Longrightarrow> captcha_handler env path c0 = manual_entry env path c0"
  by (simp add: reaches_manual_def captcha_handler_def split: sum.splits option.splits)

text \<open>
  C8, as the claim states it, fails: \<open>status.start()\<close> is an ordinary statement after
  the prompt, not the \<open>finally\<close> of a \<open>try\<close>. When \<open>ui.ask_input\<close> raises, the
  exception leaves the handler with the animation stopped and never restarted.
\<close>

theorem status_not_restarted_counterexample:
  "reaches_manual
     \<lparr>solve = \<lambda>p. Inr None, platform_system = ''Linux'',
       startfile = \<lambda>p. Inr (), subprocess_call = \<lambda>args. Inr (),
       ask_input = \<lambda>prompt. Inl (Exception ''EOFError'')\<rparr> ''captcha.png'' \<and>
   captcha_handler
     \<lparr>solve = \<lambda>p. Inr None, platform_system = ''Linux'',
       startfile = \<lambda>p. Inr (), subprocess_call = \<lambda>args. Inr (),
       ask_input = \<lambda>prompt. Inl (Exception ''EOFError'')\<rparr> ''captcha.png''
     \<lparr>running = True, events = []\<rparr>
     = (Inl (Fault Prompt (Exception ''EOFError'')),
        \<lparr>running = False,
          events = [PrintManual, OpenImage ''captcha.png'', PrintOpened ''captcha.png'',
                    StatusStop, AskInput ''Captcha Kodu'']\<rparr>)"
  by (simp add: reaches_manual_def captcha_handler_def try_solve_def manual_entry_def
      open_image_def emit_def status_stop_def)

text \<open>
  C8, amended. When the handler reaches the manual entry and the viewer opens, the
  animation is stopped before the prompt. If the prompt returns a code, the animation is
  started again before the handler returns it. If the prompt raises, the handler does
  not restart the animation: the exception leaves it with the animation stopped.
\<close>

theorem status_restarted_when_prompt_returns:
  assumes "reaches_manual env path" and "open_image env path = Inr ()"
  shows "(ask_input env ''Captcha Kodu'' = Inr code \<longrightarrow>
            captcha_handler env path c0 =
              (Inr (Human, code),
               c0\<lparr>running := True,
                   events := events c0 @ [PrintManual, OpenImage path, PrintOpened path,
                                        StatusStop, AskInput ''Captcha Kodu'', StatusStart]\<rparr>)) \<and>
         (ask_input env ''Captcha Kodu'' = Inl e \<longrightarrow>
            captcha_handler env path c0 =
              (Inl (Fault Prompt e),
               c0\<lparr>running := False,
                   events := events c0 @ [PrintManual, OpenImage path, PrintOpened path,
                                        StatusStop, AskInput ''Captcha Kodu'']\<rparr>))"
  using assms
  by (simp add: reaches_manual_handler manual_entry_def emit_def status_stop_def status_start_def)

theorem status_restarted_when_prompt_returns_witness:
  "reaches_manual
     \<lparr>solve = \<lambda>p. Inr (Some []), platform_system = ''Darwin'',
       startfile = \<lambda>p. Inl (Exception ''AttributeError''), subprocess_call = \<lambda>args. Inr (),
       ask_input = \<lambda>prompt. Inr ''4821''\<rparr> ''captcha.png'' \<and>
   open_image
     \<lparr>solve = \<lambda>p. Inr (Some []), platform_system = ''Darwin'',
       startfile = \<lambda>p. Inl (Exception ''AttributeError''), subprocess_call = \<lambda>args. Inr (),
       ask_input = \<lambda>prompt. Inr ''4821''\<rparr> ''captcha.png'' = Inr () \<and>
   captcha_handler
     \<lparr>solve = \<lambda>p. Inr (Some []), platform_system = ''Darwin'',
       startfile = \<lambda>p. Inl (Exception ''AttributeError''), subprocess_call = \<lambda>args. Inr (),
       ask_input = \<lambda>prompt. Inr ''4821''\<rparr> ''captcha.png'' \<lparr>running = True, events = []\<rparr>
     = (Inr (Human, ''4821''),
        \<lparr>running = True,
          events = [PrintManual, OpenImage ''captcha.png'', PrintOpened ''captcha.png'',
                    StatusStop, AskInput ''Captcha Kodu'', StatusStart]\<rparr>)"
  using status_restarted_when_prompt_returns [of
      "\<lparr>solve = \<lambda>p. Inr (Some []), platform_system = ''Darwin'',
        startfile = \<lambda>p. Inl (Exception ''AttributeError''), subprocess_call = \<lambda>args. Inr (),
        ask_input = \<lambda>prompt. Inr ''4821''\<rparr>" "''captcha.png''" "''4821''"
      "\<lparr>running = True, events = []\<rparr>"]
  by (simp add: reaches_manual_def try_solve_def open_image_def)

section \<open>Properties of the batch collection\<close>

lemma remove_if_exists_gone:
  "remove_if_exists d p = Inr d' \<Longrightarrow> \<not> path_exists d' p"
  by (auto simp: remove_if_exists_def os_remove_def path_exists_def split: if_splits)

lemma try_block_removes:
  assumes "download env i (the_disk st) = (Inr (Some p), d1)" and "p \<noteq> []"
    and "try_block env solver i st = (Inr ps, st')"
  shows "\<not> path_exists (the_disk st') p \<and> ps \<noteq> DownloadFailed"
  using assms
  by (auto simp: try_block_def Let_def dest: remove_if_exists_gone
      split: option.splits sum.splits prod.splits if_splits)

lemma predict_good:
  "rows roi \<noteq> 0 \<Longrightarrow> cols roi \<noteq> 0 \<Longrightarrow>
   snd (predict_digit \<lparr>model = Some (\<lambda>blob. Inr 7)\<rparr> ip roi) = Inr ''7''"
  by (simp add: predict_digit_def preprocess_def resize_def pad_roi_def copyMakeBorder_def
      Let_def str_nat.simps digit_char_def)

text \<open>
  The three ways the \<open>try\<close> block ends without raising (the image does not decode, no
  region is found, the crops have been saved) each remove the challenge image the
  download wrote.
\<close>

lemma collect_iteration_removes_captcha:
  assumes "download env i (the_disk st) = (Inr (Some p), d1)" and "p \<noteq> []"
    and "collect_iteration env solver i st = (Next ps, st')"
  shows "\<not> path_exists (the_disk st') p \<and>
         (ps = DecodeFailed \<or> ps = NoRegions \<or> (\<exists>digits. ps = Persisted digits))"
proof -
  from assms(3) have t: "try_block env solver i st = (Inr ps, st')"
    by (auto simp: collect_iteration_def split: prod.splits sum.splits if_splits)
  from try_block_removes [OF assms(1,2) t]
  show ?thesis by (cases ps) auto
qed

lemma collect_iteration_removes_captcha_example:
  "download \<lparr>download = \<lambda>i d. (Inr (Some ''captcha.png''), d\<lparr>files := insert ''captcha.png'' (files d)\<rparr>),
       imread = \<lambda>d p. Some \<lparr>rows = 40, cols = 120, pix = \<lambda>r c. 0\<rparr>,
       find_contours = \<lambda>img. [(10, 5, 20, 30)],
       interpolate = \<lambda>src wd ht r c. 0,
       uuid_hex12 = \<lambda>n. ''0123456789ab'',
       dataset_digits_dir = ''dataset_digits''\<rparr> 0 (the_disk \<lparr>the_disk = \<lparr>files = {}, dirs = {''dataset_digits''}\<rparr>,
       success_count = 0, uuid_calls = 0, parsed_digits = []\<rparr>) = (Inr (Some ''captcha.png''), \<lparr>files = {''captcha.png''}, dirs = {''dataset_digits''}\<rparr>) \<and>
   ''captcha.png'' \<noteq> [] \<and>
   collect_iteration \<lparr>download = \<lambda>i d. (Inr (Some ''captcha.png''), d\<lparr>files := insert ''captcha.png'' (files d)\<rparr>),
       imread = \<lambda>d p. Some \<lparr>rows = 40, cols = 120, pix = \<lambda>r c. 0\<rparr>,
       find_contours = \<lambda>img. [(10, 5, 20, 30)],
       interpolate = \<lambda>src wd ht r c. 0,
       uuid_hex12 = \<lambda>n. ''0123456789ab'',
       dataset_digits_dir = ''dataset_digits''\<rparr> \<lparr>model = Some (\<lambda>blob. Inr 7)\<rparr> 0 \<lparr>the_disk = \<lparr>files = {}, dirs = {''dataset_digits''}\<rparr>,
       success_count = 0, uuid_calls = 0, parsed_digits = []\<rparr> = (Next (Persisted ''7''), \<lparr>the_disk = \<lparr>files = {''dataset_digits/7/0123456789ab.png''},
                     dirs = {''dataset_digits/7'', ''dataset_digits''}\<rparr>,
          success_count = 1, uuid_calls = 1, parsed_digits = ''7''\<rparr>) \<and>
   \<not> path_exists (the_disk \<lparr>the_disk = \<lparr>files = {''dataset_digits/7/0123456789ab.png''},
                     dirs = {''dataset_digits/7'', ''dataset_digits''}\<rparr>,
          success_count = 1, uuid_calls = 1, parsed_digits = ''7''\<rparr>) ''captcha.png''"
proof -
  have h1: "download \<lparr>download = \<lambda>i d. (Inr (Some ''captcha.png''), d\<lparr>files := insert ''captcha.png'' (files d)\<rparr>),
       imread = \<lambda>d p. Some \<lparr>rows = 40, cols = 120, pix = \<lambda>r c. 0\<rparr>,
       find_contours = \<lambda>img. [(10, 5, 20, 30)],
       interpolate = \<lambda>src wd ht r c. 0,
       uuid_hex12 = \<lambda>n. ''0123456789ab'',
       dataset_digits_dir = ''dataset_digits''\<rparr> 0 (the_disk \<lparr>the_disk = \<lparr>files = {}, dirs = {''dataset_digits''}\<rparr>,
       success_count = 0, uuid_calls = 0, parsed_digits = []\<rparr>) = (Inr (Some ''captcha.png''), \<lparr>files = {''captcha.png''}, dirs = {''dataset_digits''}\<rparr>)"
    by simp
  have h2: "''captcha.png'' \<noteq> []" by simp
  have h3: "collect_iteration \<lparr>download = \<lambda>i d. (Inr (Some ''captcha.png''), d\<lparr>files := insert ''captcha.png'' (files d)\<rparr>),
       imread = \<lambda>d p. Some \<lparr>rows = 40, cols = 120, pix = \<lambda>r c. 0\<rparr>,
       find_contours = \<lambda>img. [(10, 5, 20, 30)],
       interpolate = \<lambda>src wd ht r c. 0,
       uuid_hex12 = \<lambda>n. ''0123456789ab'',
       dataset_digits_dir = ''dataset_digits''\<rparr> \<lparr>model = Some (\<lambda>blob. Inr 7)\<rparr> 0 \<lparr>the_disk = \<lparr>files = {}, dirs = {''dataset_digits''}\<rparr>,
       success_count = 0, uuid_calls = 0, parsed_digits = []\<rparr> = (Next (Persisted ''7''), \<lparr>the_disk = \<lparr>files = {''dataset_digits/7/0123456789ab.png''},
                     dirs = {''dataset_digits/7'', ''dataset_digits''}\<rparr>,
          success_count = 1, uuid_calls = 1, parsed_digits = ''7''\<rparr>)"
    by (simp add: collect_iteration_def try_block_def find_character_regions_def
        is_center_def aspect_ratio_def slice_cols_def slice_bound_def predict_good
        left_right_pad_def copyMakeBorder_def resize_def path_join_def path_exists_def
        makedirs_def imwrite_def remove_if_exists_def os_remove_def Let_def
        insert_Diff_if)
  from collect_iteration_removes_captcha [OF h1 h2 h3] h1 h2 h3
  show ?thesis by (intro conjI) simp_all
qed

text \<open>
  C9 fails on the code. The clean-up is the last statement of the \<open>try\<close> block, and
  neither handler removes anything: an iteration whose download wrote
  \<open>captcha.png\<close> and whose model raises at inference ends in
  \<open>except Exception: continue\<close> (or, on \<open>KeyboardInterrupt\<close>, in \<open>break\<close>) with the
  challenge image still on the disk.
\<close>

theorem collect_iteration_exception_keeps_file:
  "collect_iteration \<lparr>download = \<lambda>i d. (Inr (Some ''captcha.png''), d\<lparr>files := insert ''captcha.png'' (files d)\<rparr>),
       imread = \<lambda>d p. Some \<lparr>rows = 40, cols = 120, pix = \<lambda>r c. 0\<rparr>,
       find_contours = \<lambda>img. [(10, 5, 20, 30)],
       interpolate = \<lambda>src wd ht r c. 0,
       uuid_hex12 = \<lambda>n. ''0123456789ab'',
       dataset_digits_dir = ''dataset_digits''\<rparr>
     \<lparr>model = Some (\<lambda>blob. Inl (Exception ''inference''))\<rparr> 0
     \<lparr>the_disk = \<lparr>files = {}, dirs = {''dataset_digits''}\<rparr>,
       success_count = 0, uuid_calls = 0, parsed_digits = []\<rparr>
     = (Skipped (Exception ''inference''),
        \<lparr>the_disk = \<lparr>files = {''captcha.png''}, dirs = {''dataset_digits''}\<rparr>,
        success_count = 0, uuid_calls = 0, parsed_digits = []\<rparr>) \<and>
   path_exists (the_disk \<lparr>the_disk = \<lparr>files = {''captcha.png''}, dirs = {''dataset_digits''}\<rparr>,
        success_count = 0, uuid_calls = 0, parsed_digits = []\<rparr>) ''captcha.png'' \<and>
   collect_iteration \<lparr>download = \<lambda>i d. (Inr (Some ''captcha.png''), d\<lparr>files := insert ''captcha.png'' (files d)\<rparr>),
       imread = \<lambda>d p. Some \<lparr>rows = 40, cols = 120, pix = \<lambda>r c. 0\<rparr>,
       find_contours = \<lambda>img. [(10, 5, 20, 30)],
       interpolate = \<lambda>src wd ht r c. 0,
       uuid_hex12 = \<lambda>n. ''0123456789ab'',
       dataset_digits_dir = ''dataset_digits''\<rparr>
     \<lparr>model = Some (\<lambda>blob. Inl KeyboardInterrupt)\<rparr> 0
     \<lparr>the_disk = \<lparr>files = {}, dirs = {''dataset_digits''}\<rparr>,
       success_count = 0, uuid_calls = 0, parsed_digits = []\<rparr>
     = (Break,
        \<lparr>the_disk = \<lparr>files = {''captcha.png''}, dirs = {''dataset_digits''}\<rparr>,
        success_count = 0, uuid_calls = 0, parsed_digits = []\<rparr>) \<and>
   collect_iteration \<lparr>download = \<lambda>i d. (Inr (Some ''captcha.png''), d\<lparr>files := insert ''captcha.png'' (files d)\<rparr>),
       imread = \<lambda>d p. Some \<lparr>rows = 40, cols = 120, pix = \<lambda>r c. 0\<rparr>,
       find_contours = \<lambda>img. [(10, 5, 20, 30)],
       interpolate = \<lambda>src wd ht r c. 0,
       uuid_hex12 = \<lambda>n. ''0123456789ab'',
       dataset_digits_dir = ''dataset_digits''\<rparr>
     \<lparr>model = Some (\<lambda>blob. Inr 7)\<rparr> 0
     \<lparr>the_disk = \<lparr>files = {}, dirs = {''dataset_digits''}\<rparr>,
       success_count = 0, uuid_calls = 0, parsed_digits = []\<rparr>
     = (Next (Persisted ''7''),
        \<lparr>the_disk = \<lparr>files = {''dataset_digits/7/0123456789ab.png''},
                     dirs = {''dataset_digits/7'', ''dataset_digits''}\<rparr>,
          success_count = 1, uuid_calls = 1, parsed_digits = ''7''\<rparr>)"
  by (simp add: collect_iteration_def try_block_def find_character_regions_def
      is_center_def aspect_ratio_def slice_cols_def slice_bound_def predict_digit_def
      preprocess_def pad_roi_def left_right_pad_def copyMakeBorder_def resize_def
      path_join_def path_exists_def makedirs_def imwrite_def remove_if_exists_def
      os_remove_def Let_def insert_Diff_if str_nat.simps digit_char_def)

end
